theory Spec2Isabelle
  imports Main "HOL-Library.Sublist"
begin

section \<open>The Go library functions the step relies on\<close>

text \<open>
  Go strings are byte sequences; they are modelled as \<^typ>\<open>string\<close>. The functions of
  this section are the ones of Go's \<^verbatim>\<open>strings\<close> and \<^verbatim>\<open>path/filepath\<close> packages that
  \<^verbatim>\<open>main.go\<close> calls. They follow the documented behaviour of the library on ASCII input:
  \<^verbatim>\<open>strings.ToLower\<close> maps \<^verbatim>\<open>A\<close>..\<^verbatim>\<open>Z\<close> to \<^verbatim>\<open>a\<close>..\<^verbatim>\<open>z\<close> and \<^verbatim>\<open>strings.TrimSpace\<close> removes
  tab, line feed, vertical tab, form feed, carriage return and space. (On bytes beyond
  ASCII the library decodes UTF-8 runes and applies the Unicode tables; that part is
  outside this model.) Paths are Unix paths, with separator \<^verbatim>\<open>/\<close>.
\<close>

subsection \<open>Package strings\<close>

text \<open>\<^verbatim>\<open>strings.Split(s, sep)\<close> for a separator of one byte, which is what both call
  sites pass (\<^verbatim>\<open>"\n"\<close> and \<^verbatim>\<open>"="\<close>). The result always has at least one element.\<close>

fun strings_Split :: "string \<Rightarrow> char \<Rightarrow> string list" where
  "strings_Split [] sep = [[]]"
| "strings_Split (c # cs) sep =
     (if c = sep then [] # strings_Split cs sep
      else (case strings_Split cs sep of
              [] \<Rightarrow> [[c]]
            | p # ps \<Rightarrow> (c # p) # ps))"

text \<open>\<^verbatim>\<open>strings.Join(elems, sep)\<close>.\<close>

fun strings_Join :: "string list \<Rightarrow> string \<Rightarrow> string" where
  "strings_Join [] sep = []"
| "strings_Join [e] sep = e"
| "strings_Join (e # es) sep = e @ sep @ strings_Join es sep"

text \<open>\<^verbatim>\<open>strings.Contains(s, substr)\<close>: \<open>substr\<close> occurs in \<open>s\<close> at some offset.\<close>

fun strings_Contains :: "string \<Rightarrow> string \<Rightarrow> bool" where
  "strings_Contains [] substr = (substr = [])"
| "strings_Contains (c # cs) substr =
     (prefix substr (c # cs) \<or> strings_Contains cs substr)"

definition toLower_byte :: "char \<Rightarrow> char" where
  "toLower_byte c =
     (case map_of (zip ''ABCDEFGHIJKLMNOPQRSTUVWXYZ'' ''abcdefghijklmnopqrstuvwxyz'') c of
        Some l \<Rightarrow> l
      | None \<Rightarrow> c)"

definition strings_ToLower :: "string \<Rightarrow> string" where
  "strings_ToLower s = map toLower_byte s"

definition isSpace :: "char \<Rightarrow> bool" where
  "isSpace c = (c \<in> set [CHR 0x09, CHR 0x0A, CHR 0x0B, CHR 0x0C, CHR 0x0D, CHR 0x20])"

definition strings_TrimSpace :: "string \<Rightarrow> string" where
  "strings_TrimSpace s = rev (dropWhile isSpace (rev (dropWhile isSpace s)))"

subsection \<open>Package path/filepath\<close>

text \<open>
  \<^verbatim>\<open>filepath.Clean\<close> walks the path element by element. \<open>cleanElems rooted out es\<close> is
  that walk: \<open>out\<close> holds the elements kept so far, last one first. Empty elements
  (doubled separators) and \<^verbatim>\<open>.\<close> are dropped; \<^verbatim>\<open>..\<close> removes the element before it when
  there is one that is not itself \<^verbatim>\<open>..\<close>, is kept at the start of a relative path, and is
  dropped at the root.
\<close>

fun cleanElems :: "bool \<Rightarrow> string list \<Rightarrow> string list \<Rightarrow> string list" where
  "cleanElems rooted out [] = rev out"
| "cleanElems rooted out (e # es) =
     (if e = [] \<or> e = ''.'' then cleanElems rooted out es
      else if e = ''..'' then
        (if out \<noteq> [] \<and> hd out \<noteq> ''..'' then cleanElems rooted (tl out) es
         else if \<not> rooted then cleanElems rooted (''..'' # out) es
         else cleanElems rooted out es)
      else cleanElems rooted (e # out) es)"

definition filepath_Clean :: "string \<Rightarrow> string" where
  "filepath_Clean path =
     (if path = [] then ''.''
      else
        let rooted = (hd path = CHR ''/'');
            out = cleanElems rooted [] (strings_Split path (CHR ''/''));
            r = (if rooted then ''/'' else []) @ strings_Join out ''/''
        in if r = [] then ''.'' else r)"

text \<open>\<^verbatim>\<open>filepath.Join\<close>: leading empty elements are ignored, the rest is joined with the
  separator and cleaned; with no non-empty element the result is the empty string.\<close>

definition filepath_Join :: "string list \<Rightarrow> string" where
  "filepath_Join elem =
     (case dropWhile (\<lambda>e. e = []) elem of
        [] \<Rightarrow> []
      | e # es \<Rightarrow> filepath_Clean (strings_Join (e # es) ''/''))"

section \<open>The version probe\<close>

text \<open>The loop of \<^verbatim>\<open>ndkVersion\<close> over the lines of \<^verbatim>\<open>source.properties\<close>: the first line
  that contains \<^verbatim>\<open>pkg.revision\<close> after lowercasing and splits at \<^verbatim>\<open>=\<close> into exactly two
  parts gives the result; when the loop runs out of lines the result is empty.\<close>

fun ndkVersion_lines :: "string list \<Rightarrow> string" where
  "ndkVersion_lines [] = []"
| "ndkVersion_lines (line # rest) =
     (if strings_Contains (strings_ToLower line) ''pkg.revision'' then
        (let lineParts = strings_Split line (CHR ''='') in
         if length lineParts = 2 then strings_TrimSpace (lineParts ! 1)
         else ndkVersion_lines rest)
      else ndkVersion_lines rest)"

definition ndkVersion_content :: "string \<Rightarrow> string" where
  "ndkVersion_content content = ndkVersion_lines (strings_Split content (CHR 0x0A))"

section \<open>The build host\<close>

text \<open>
  The step runs as one process on a build host. What it reads and changes there is the
  state: the process environment, the files (each with its permission bits and its
  content, under its cleaned path), the entries handed to \<^verbatim>\<open>envman\<close> for later steps, and
  the record of the deletions and package-manager installs that \<^verbatim>\<open>main.go\<close> itself issued,
  in the order they were issued.
\<close>

type_synonym path = string
type_synonym error = string

record fileinfo =
  perm :: nat
  data :: string

type_synonym filesystem = "path \<rightharpoonup> fileinfo"

datatype call = RemoveAll path | SdkmanagerInstall string

record state =
  environ :: "string \<rightharpoonup> string"
  files :: filesystem
  envstore :: "(string \<times> string) list"
  calls :: "call list"

datatype sdk_Model = Model (GetAndroidHome: string)

text \<open>
  The outcomes of the operating system and of the external tools are parameters: a
  \<open>host\<close> says which reads, permission changes and deletions are refused, what the
  go-android and go-version libraries answer, what the package manager and the licence
  and component phases do to the files, and whether \<^verbatim>\<open>envman\<close> accepts an entry. Every
  theorem below holds for every host.
\<close>

record host =
  read_denied :: "path \<Rightarrow> bool"
  chmod_denied :: "path \<Rightarrow> bool"
  removeAll_failure :: "path \<Rightarrow> filesystem \<Rightarrow> (error \<times> filesystem) option"
  sdk_NewDefaultModel :: "string \<Rightarrow> string \<Rightarrow> filesystem \<Rightarrow> error + sdk_Model"
  version_NewVersion :: "string \<Rightarrow> error option"
  sdkmanager_New :: "sdk_Model \<Rightarrow> filesystem \<Rightarrow> error option"
  sdkmanager_install :: "string \<Rightarrow> sdk_Model \<Rightarrow> filesystem \<Rightarrow> error option \<times> filesystem"
  envman_add :: "string \<Rightarrow> string \<Rightarrow> (string \<times> string) list \<Rightarrow> error option"
  licences_outcome :: "sdk_Model \<Rightarrow> filesystem \<Rightarrow> error option \<times> filesystem"
  ensure_outcome :: "sdk_Model \<Rightarrow> string \<Rightarrow> filesystem \<Rightarrow> error option \<times> filesystem"

subsection \<open>Operating system and tools\<close>

text \<open>\<^verbatim>\<open>os.Getenv\<close>: the value of the variable, empty when it is not set.\<close>

definition os_Getenv :: "(string \<rightharpoonup> string) \<Rightarrow> string \<Rightarrow> string" where
  "os_Getenv env key = (case env key of None \<Rightarrow> [] | Some v \<Rightarrow> v)"

text \<open>\<^verbatim>\<open>os.Unsetenv\<close> removes the variable from the process environment; on Unix it
  returns no error.\<close>

definition os_Unsetenv :: "string \<Rightarrow> state \<Rightarrow> error option \<times> state" where
  "os_Unsetenv key s = (None, s\<lparr>environ := (environ s)(key := None)\<rparr>)"

text \<open>\<^verbatim>\<open>fileutil.ReadStringFromFile\<close>: the content of the file, or an error when the file
  is missing or the host refuses the read.\<close>

definition fileutil_ReadStringFromFile :: "host \<Rightarrow> filesystem \<Rightarrow> path \<Rightarrow> error + string" where
  "fileutil_ReadStringFromFile h fs pth =
     (case fs (filepath_Clean pth) of
        None \<Rightarrow> Inl ''no such file or directory''
      | Some f \<Rightarrow> if read_denied h pth then Inl ''permission denied'' else Inr (data f))"

text \<open>\<^verbatim>\<open>os.Chmod\<close>: sets the permission bits of an existing file.\<close>

definition os_Chmod :: "host \<Rightarrow> path \<Rightarrow> nat \<Rightarrow> state \<Rightarrow> error option \<times> state" where
  "os_Chmod h name mode s =
     (case files s (filepath_Clean name) of
        None \<Rightarrow> (Some ''no such file or directory'', s)
      | Some f \<Rightarrow>
          if chmod_denied h name then (Some ''operation not permitted'', s)
          else (None, s\<lparr>files := (files s)(filepath_Clean name \<mapsto> f\<lparr>perm := mode\<rparr>)\<rparr>))"

text \<open>\<open>under d p\<close>: the path \<open>p\<close> is the directory \<open>d\<close> itself or lies below it.\<close>

definition under :: "path \<Rightarrow> path \<Rightarrow> bool" where
  "under d p = (p = d \<or> prefix (if d = ''/'' then d else d @ ''/'') p)"

text \<open>The files that are left when \<open>pth\<close> and everything below it is removed.\<close>

definition removeTree :: "path \<Rightarrow> filesystem \<Rightarrow> filesystem" where
  "removeTree pth fs = (\<lambda>p. if under (filepath_Clean pth) p then None else fs p)"

text \<open>\<^verbatim>\<open>os.RemoveAll\<close>: removes the path and everything below it. When the host makes it
  fail, it returns the error and the files are left as the host says (some may be gone
  already).\<close>

definition os_RemoveAll :: "host \<Rightarrow> path \<Rightarrow> state \<Rightarrow> error option \<times> state" where
  "os_RemoveAll h pth s =
     (let s' = s\<lparr>calls := calls s @ [RemoveAll pth]\<rparr> in
      case removeAll_failure h pth (files s) of
        Some (err, fs') \<Rightarrow> (Some err, s'\<lparr>files := fs'\<rparr>)
      | None \<Rightarrow> (None, s'\<lparr>files := removeTree pth (files s)\<rparr>))"

text \<open>Running the command of \<^verbatim>\<open>sdkManager.InstallCommand(sdkcomponent.NDK{Version: version})\<close>
  with \<^verbatim>\<open>RunAndReturnTrimmedOutput\<close>; the output is only logged.\<close>

definition run_InstallCommand :: "host \<Rightarrow> string \<Rightarrow> sdk_Model \<Rightarrow> state \<Rightarrow> error option \<times> state" where
  "run_InstallCommand h version androidSdk s =
     (case sdkmanager_install h version androidSdk (files s) of
        (err, fs') \<Rightarrow> (err, s\<lparr>files := fs', calls := calls s @ [SdkmanagerInstall version]\<rparr>))"

text \<open>\<^verbatim>\<open>tools.ExportEnvironmentWithEnvman\<close> runs \<^verbatim>\<open>envman add\<close>: the entry is appended to the
  store for later steps, unless \<^verbatim>\<open>envman\<close> fails. The process environment of the step
  itself is not changed.\<close>

definition tools_ExportEnvironmentWithEnvman :: "host \<Rightarrow> string \<Rightarrow> string \<Rightarrow> state \<Rightarrow> error option \<times> state" where
  "tools_ExportEnvironmentWithEnvman h keyStr valueStr s =
     (case envman_add h keyStr valueStr (envstore s) of
        Some err \<Rightarrow> (Some err, s)
      | None \<Rightarrow> (None, s\<lparr>envstore := envstore s @ [(keyStr, valueStr)]\<rparr>))"

text \<open>Modelled from the spec: \<^verbatim>\<open>sdkcomponent.NDK.InstallPathInAndroidHome\<close> belongs to the
  go-android library and is not under src/. The comment of \<^verbatim>\<open>updateNDK\<close> and the
  end-to-end test place a versioned NDK in the \<^verbatim>\<open>ndk/version\<close> subdirectory of the SDK
  location; with no version the component is the legacy \<^verbatim>\<open>ndk-bundle\<close>.\<close>

definition NDK_InstallPathInAndroidHome :: "string \<Rightarrow> string" where
  "NDK_InstallPathInAndroidHome version =
     (if version \<noteq> [] then filepath_Join [''ndk'', version] else ''ndk-bundle'')"

section \<open>main.go\<close>

definition androidNDKHome :: string where
  "androidNDKHome = ''ANDROID_NDK_HOME''"

record Config =
  GradlewPath :: string
  AndroidHome :: string
  AndroidSDKRoot :: string
  NDKVersion :: string

text \<open>\<^verbatim>\<open>ndkVersion\<close>: a failed read of \<^verbatim>\<open>source.properties\<close> gives the empty version.\<close>

definition ndkVersion :: "host \<Rightarrow> filesystem \<Rightarrow> path \<Rightarrow> string" where
  "ndkVersion h fs ndkPath =
     (let propertiesPath = filepath_Join [ndkPath, ''source.properties''] in
      case fileutil_ReadStringFromFile h fs propertiesPath of
        Inl err \<Rightarrow> []
      | Inr content \<Rightarrow> ndkVersion_content content)"

definition currentNDKHome :: "(string \<rightharpoonup> string) \<Rightarrow> string" where
  "currentNDKHome env =
     (if os_Getenv env androidNDKHome \<noteq> [] then os_Getenv env androidNDKHome
      else if os_Getenv env ''ANDROID_HOME'' \<noteq> [] then
        filepath_Join [os_Getenv env ''ANDROID_HOME'', ''ndk-bundle'']
      else if os_Getenv env ''ANDROID_SDK_ROOT'' \<noteq> [] then
        filepath_Join [os_Getenv env ''ANDROID_SDK_ROOT'', ''ndk-bundle'']
      else if os_Getenv env ''HOME'' \<noteq> [] then
        filepath_Join [os_Getenv env ''HOME'', ''ndk-bundle'']
      else ''ndk-bundle'')"

text \<open>\<^verbatim>\<open>updateNDK\<close>: nothing is done when the probed version is the requested one;
  otherwise the current NDK is removed, the requested one is installed with the package
  manager, and \<^verbatim>\<open>PATH\<close> and \<^verbatim>\<open>ANDROID_NDK_HOME\<close> are exported. Every error is returned
  at once.\<close>

definition updateNDK :: "host \<Rightarrow> string \<Rightarrow> sdk_Model \<Rightarrow> state \<Rightarrow> error option \<times> state" where
  "updateNDK h version androidSdk s =
     (let currentNdkHome = currentNDKHome (environ s);
          currentVersion = ndkVersion h (files s) currentNdkHome
      in if currentVersion = version then (None, s)
         else
           (case os_RemoveAll h currentNdkHome s of
              (Some err, s1) \<Rightarrow> (Some err, s1)
            | (None, s1) \<Rightarrow>
                (case sdkmanager_New h androidSdk (files s1) of
                   Some err \<Rightarrow> (Some err, s1)
                 | None \<Rightarrow>
                     (case run_InstallCommand h version androidSdk s1 of
                        (Some err, s2) \<Rightarrow> (Some err, s2)
                      | (None, s2) \<Rightarrow>
                          (let newNDKHome =
                                 filepath_Join [GetAndroidHome androidSdk,
                                                NDK_InstallPathInAndroidHome version]
                           in case tools_ExportEnvironmentWithEnvman h ''PATH''
                                     (os_Getenv (environ s2) ''PATH'' @ '':'' @ newNDKHome) s2 of
                                (Some err, s3) \<Rightarrow> (Some err, s3)
                              | (None, s3) \<Rightarrow>
                                  (case tools_ExportEnvironmentWithEnvman h androidNDKHome
                                          newNDKHome s3 of
                                     (Some err, s4) \<Rightarrow> (Some err, s4)
                                   | (None, s4) \<Rightarrow> (None, s4)))))))"

text \<open>How the step ends when it fails: each value stands for one call of \<^verbatim>\<open>failf\<close>, which
  logs the message and exits with status 1.\<close>

datatype failure =
    ChmodFailed error
  | SdkInitFailed error
  | InvalidNDKVersion string
  | NDKInstallFailed error
  | UnsetenvFailed error
  | ExportFailed error
  | LicencesFailed error
  | EnsureFailed error

text \<open>The permission bits \<^verbatim>\<open>0770\<close> (octal) that \<^verbatim>\<open>main\<close> gives to gradlew.\<close>

definition gradlewPerm :: nat where
  "gradlewPerm = 7 * 64 + 7 * 8"

text \<open>Modelled from the spec: \<^verbatim>\<open>androidcomponents.InstallLicences\<close> belongs to a package
  of this repository that is not under src/. The spec treats it as an opaque call that
  makes the licences present and may fail; it changes files only, as the host says.\<close>

definition androidcomponents_InstallLicences :: "host \<Rightarrow> sdk_Model \<Rightarrow> state \<Rightarrow> error option \<times> state" where
  "androidcomponents_InstallLicences h androidSdk s =
     (case licences_outcome h androidSdk (files s) of (err, fs') \<Rightarrow> (err, s\<lparr>files := fs'\<rparr>))"

text \<open>Modelled from the spec: \<^verbatim>\<open>androidcomponents.Ensure\<close> belongs to the same package. The
  spec treats it as an opaque call that makes the SDK components required by the build
  present and may fail; it changes files only, as the host says.\<close>

definition androidcomponents_Ensure :: "host \<Rightarrow> sdk_Model \<Rightarrow> string \<Rightarrow> state \<Rightarrow> error option \<times> state" where
  "androidcomponents_Ensure h androidSdk gradlewPath s =
     (case ensure_outcome h androidSdk gradlewPath (files s) of
        (err, fs') \<Rightarrow> (err, s\<lparr>files := fs'\<rparr>))"

text \<open>\<^verbatim>\<open>main\<close>, from the parsed configuration on. (An error of the input parser is only
  logged, and the step goes on with the configuration as parsed.) Each call of \<^verbatim>\<open>failf\<close>
  ends the step with its failure; the result \<open>None\<close> is exit status 0.\<close>

definition main :: "host \<Rightarrow> Config \<Rightarrow> state \<Rightarrow> failure option \<times> state" where
  "main h config s =
     (case os_Chmod h (GradlewPath config) gradlewPerm s of
        (Some err, s1) \<Rightarrow> (Some (ChmodFailed err), s1)
      | (None, s1) \<Rightarrow>
          (case sdk_NewDefaultModel h (AndroidHome config) (AndroidSDKRoot config) (files s1) of
             Inl err \<Rightarrow> (Some (SdkInitFailed err), s1)
           | Inr androidSdk \<Rightarrow>
               (case (if NDKVersion config \<noteq> [] then
                        (case version_NewVersion h (NDKVersion config) of
                           Some err \<Rightarrow> (Some (InvalidNDKVersion (NDKVersion config)), s1)
                         | None \<Rightarrow>
                             (case updateNDK h (NDKVersion config) androidSdk s1 of
                                (Some err, s2) \<Rightarrow> (Some (NDKInstallFailed err), s2)
                              | (None, s2) \<Rightarrow> (None, s2)))
                      else
                        (case os_Unsetenv ''ANDROID_NDK_HOME'' s1 of
                           (Some err, s2) \<Rightarrow> (Some (UnsetenvFailed err), s2)
                         | (None, s2) \<Rightarrow>
                             (case tools_ExportEnvironmentWithEnvman h ''ANDROID_NDK_HOME'' [] s2 of
                                (Some err, s3) \<Rightarrow> (Some (ExportFailed err), s3)
                              | (None, s3) \<Rightarrow> (None, s3)))) of
                  (Some f, s2) \<Rightarrow> (Some f, s2)
                | (None, s2) \<Rightarrow>
                    (case androidcomponents_InstallLicences h androidSdk s2 of
                       (Some err, s3) \<Rightarrow> (Some (LicencesFailed err), s3)
                     | (None, s3) \<Rightarrow>
                         (case androidcomponents_Ensure h androidSdk (GradlewPath config) s3 of
                            (Some err, s4) \<Rightarrow> (Some (EnsureFailed err), s4)
                          | (None, s4) \<Rightarrow> (None, s4))))))"

section \<open>Notions used in the statements\<close>

text \<open>The text of a line after its first \<^verbatim>\<open>=\<close>.\<close>

definition valueAfterEq :: "string \<Rightarrow> string" where
  "valueAfterEq line = drop 1 (dropWhile (\<lambda>c. c \<noteq> CHR ''='') line)"

text \<open>The version probe as the specification words it: the first line that contains the
  revision key, whatever its case, gives the trimmed value after its first \<^verbatim>\<open>=\<close>; with no
  such line the result is empty.\<close>

definition claimed_ndkVersion_content :: "string \<Rightarrow> string" where
  "claimed_ndkVersion_content content =
     (case filter (\<lambda>l. strings_Contains (strings_ToLower l) ''pkg.revision'')
             (strings_Split content (CHR 0x0A)) of
        [] \<Rightarrow> []
      | l # _ \<Rightarrow> strings_TrimSpace (valueAfterEq l))"

text \<open>A single path element that \<^verbatim>\<open>filepath.Clean\<close> keeps as it is. Every version string
  that passes validation is one: it has no separator and at least one digit.\<close>

definition plainElem :: "string \<Rightarrow> bool" where
  "plainElem e = (e \<noteq> [] \<and> e \<noteq> ''.'' \<and> e \<noteq> ''..'' \<and> CHR ''/'' \<notin> set e)"

text \<open>A variable without a value: not set, or set to the empty string. \<^verbatim>\<open>os.Getenv\<close>
  does not tell the two apart.\<close>

definition noValue :: "(string \<rightharpoonup> string) \<Rightarrow> string \<Rightarrow> bool" where
  "noValue env key = (env key = None \<or> env key = Some [])"

text \<open>The two halves of \<^verbatim>\<open>updateNDK\<close>, for the proofs: the two exports that end it
  (lines 117 to 128), and before them the removal and the install (lines 95 to 113), which
  on success give the new NDK home.\<close>

definition publishNDK :: "host \<Rightarrow> string \<Rightarrow> state \<Rightarrow> error option \<times> state" where
  "publishNDK h newNDKHome s =
     (case tools_ExportEnvironmentWithEnvman h ''PATH''
             (os_Getenv (environ s) ''PATH'' @ '':'' @ newNDKHome) s of
        (Some err, s1) \<Rightarrow> (Some err, s1)
      | (None, s1) \<Rightarrow>
          (case tools_ExportEnvironmentWithEnvman h androidNDKHome newNDKHome s1 of
             (Some err, s2) \<Rightarrow> (Some err, s2)
           | (None, s2) \<Rightarrow> (None, s2)))"

definition reinstallNDK :: "host \<Rightarrow> string \<Rightarrow> sdk_Model \<Rightarrow> path \<Rightarrow> state \<Rightarrow> (error + string) \<times> state" where
  "reinstallNDK h version androidSdk currentNdkHome s =
     (case os_RemoveAll h currentNdkHome s of
        (Some err, s1) \<Rightarrow> (Inl err, s1)
      | (None, s1) \<Rightarrow>
          (case sdkmanager_New h androidSdk (files s1) of
             Some err \<Rightarrow> (Inl err, s1)
           | None \<Rightarrow>
               (case run_InstallCommand h version androidSdk s1 of
                  (Some err, s2) \<Rightarrow> (Inl err, s2)
                | (None, s2) \<Rightarrow>
                    (Inr (filepath_Join [GetAndroidHome androidSdk,
                                         NDK_InstallPathInAndroidHome version]), s2))))"

text \<open>The phases of \<^verbatim>\<open>main\<close> after the SDK is initialised, for the proofs: lines 161 to 184
  (install the requested NDK, or clear the NDK environment when no version is requested)
  and lines 186 to 199 (licences and SDK components).\<close>

definition main_ndk :: "host \<Rightarrow> Config \<Rightarrow> sdk_Model \<Rightarrow> state \<Rightarrow> failure option \<times> state" where
  "main_ndk h config androidSdk s =
     (if NDKVersion config \<noteq> [] then
        (case version_NewVersion h (NDKVersion config) of
           Some err \<Rightarrow> (Some (InvalidNDKVersion (NDKVersion config)), s)
         | None \<Rightarrow>
             (case updateNDK h (NDKVersion config) androidSdk s of
                (Some err, s1) \<Rightarrow> (Some (NDKInstallFailed err), s1)
              | (None, s1) \<Rightarrow> (None, s1)))
      else
        (case os_Unsetenv ''ANDROID_NDK_HOME'' s of
           (Some err, s1) \<Rightarrow> (Some (UnsetenvFailed err), s1)
         | (None, s1) \<Rightarrow>
             (case tools_ExportEnvironmentWithEnvman h ''ANDROID_NDK_HOME'' [] s1 of
                (Some err, s2) \<Rightarrow> (Some (ExportFailed err), s2)
              | (None, s2) \<Rightarrow> (None, s2))))"

definition main_components :: "host \<Rightarrow> Config \<Rightarrow> sdk_Model \<Rightarrow> state \<Rightarrow> failure option \<times> state" where
  "main_components h config androidSdk s =
     (case androidcomponents_InstallLicences h androidSdk s of
        (Some err, s1) \<Rightarrow> (Some (LicencesFailed err), s1)
      | (None, s1) \<Rightarrow>
          (case androidcomponents_Ensure h androidSdk (GradlewPath config) s1 of
             (Some err, s2) \<Rightarrow> (Some (EnsureFailed err), s2)
           | (None, s2) \<Rightarrow> (None, s2)))"

text \<open>\<^verbatim>\<open>main\<close>, from the parsed configuration on. (An error of the input parser is only
  logged, and the step goes on with the configuration as parsed.) The result \<open>None\<close> is
  exit status 0.\<close>

subsection \<open>An example host\<close>

text \<open>A host on which every external call succeeds: the version parser accepts dotted
  numbers, and the package manager writes the metadata of the installed version into the
  \<^verbatim>\<open>ndk/version\<close> directory of the SDK.\<close>

definition exampleHost :: host where
  "exampleHost =
     \<lparr>read_denied = (\<lambda>p. False),
      chmod_denied = (\<lambda>p. False),
      removeAll_failure = (\<lambda>p fs. None),
      sdk_NewDefaultModel = (\<lambda>home root fs.
         if root \<noteq> [] then Inr (Model root)
         else if home \<noteq> [] then Inr (Model home)
         else Inl ''no SDK location''),
      version_NewVersion = (\<lambda>v.
         if v \<noteq> [] \<and> list_all (\<lambda>c. c \<in> set ''0123456789.'') v then None
         else Some ''malformed version''),
      sdkmanager_New = (\<lambda>sdk fs. None),
      sdkmanager_install = (\<lambda>v sdk fs.
         (None, fs(filepath_Join [GetAndroidHome sdk, ''ndk'', v, ''source.properties'']
                     \<mapsto> \<lparr>perm = 420, data = ''Pkg.Revision = '' @ v\<rparr>))),
      envman_add = (\<lambda>k v store. None),
      licences_outcome = (\<lambda>sdk fs. (None, fs)),
      ensure_outcome = (\<lambda>sdk gradlew fs. (None, fs))\<rparr>"

text \<open>The same host, except that \<^verbatim>\<open>envman\<close> refuses the entry for \<^verbatim>\<open>ANDROID_NDK_HOME\<close>.\<close>

definition exampleHost_envman_refuses :: host where
  "exampleHost_envman_refuses =
     exampleHost\<lparr>envman_add :=
       (\<lambda>k v store. if k = ''ANDROID_NDK_HOME'' then Some ''envman add failed'' else None)\<rparr>"

text \<open>A build host with the SDK in \<^verbatim>\<open>/sdk\<close>, an NDK of the given revision in the legacy
  \<^verbatim>\<open>ndk-bundle\<close> directory, and a gradlew that is not executable (permission bits 0644).\<close>

definition exampleState :: "string \<Rightarrow> state" where
  "exampleState installed =
     \<lparr>environ = [''ANDROID_HOME'' \<mapsto> ''/sdk'', ''PATH'' \<mapsto> ''/usr/bin''],
      files = [''/sdk/ndk-bundle/source.properties'' \<mapsto>
                 \<lparr>perm = 420,
                  data = ''Pkg.Desc = Android NDK'' @ [CHR 0x0A] @ ''Pkg.Revision = '' @ installed\<rparr>,
               ''gradlew'' \<mapsto> \<lparr>perm = 420, data = ''#!/bin/sh''\<rparr>],
      envstore = [],
      calls = []\<rparr>"

definition exampleConfig :: "string \<Rightarrow> Config" where
  "exampleConfig requested =
     \<lparr>GradlewPath = ''./gradlew'', AndroidHome = ''/sdk'', AndroidSDKRoot = [],
      NDKVersion = requested\<rparr>"

text \<open>The example state after \<^verbatim>\<open>updateNDK\<close> has replaced revision 17.2.4988734 by
  22.1.7171670 on the example host.\<close>

definition exampleStateInstalled :: state where
  "exampleStateInstalled =
     (exampleState ''17.2.4988734'')
        \<lparr>files := (removeTree ''/sdk/ndk-bundle'' (files (exampleState ''17.2.4988734'')))
             (''/sdk/ndk/22.1.7171670/source.properties'' \<mapsto>
                \<lparr>perm = 420, data = ''Pkg.Revision = 22.1.7171670''\<rparr>),
         envstore := [(''PATH'', ''/usr/bin:/sdk/ndk/22.1.7171670''),
                      (''ANDROID_NDK_HOME'', ''/sdk/ndk/22.1.7171670'')],
         calls := [RemoveAll ''/sdk/ndk-bundle'', SdkmanagerInstall ''22.1.7171670'']\<rparr>"

text \<open>The state in which the next invocation of the step starts: \<^verbatim>\<open>envman\<close> has put the
  published entries into its environment.\<close>

definition exampleNextStep :: state where
  "exampleNextStep =
     exampleStateInstalled
        \<lparr>environ := (environ exampleStateInstalled)
             (''PATH'' \<mapsto> ''/usr/bin:/sdk/ndk/22.1.7171670'',
              ''ANDROID_NDK_HOME'' \<mapsto> ''/sdk/ndk/22.1.7171670''),
         calls := []\<rparr>"


section \<open>Properties of the version probe\<close>

subsection \<open>Splitting and searching\<close>

lemma strings_Split_not_Nil: "strings_Split s sep \<noteq> []"
  by (induction s) (auto split: list.splits)

lemma length_strings_Split: "length (strings_Split s sep) = Suc (count_list s sep)"
  by (induction s) (auto split: list.splits simp: strings_Split_not_Nil)

lemma strings_Split_no_sep: "sep \<notin> set s \<Longrightarrow> strings_Split s sep = [s]"
  by (induction s) auto

lemma strings_Split_one_sep:
  "count_list s sep = 1 \<Longrightarrow>
     strings_Split s sep = [takeWhile (\<lambda>c. c \<noteq> sep) s, drop 1 (dropWhile (\<lambda>c. c \<noteq> sep) s)]"
proof (induction s)
  case Nil
  then show ?case by simp
next
  case (Cons c cs)
  show ?case
  proof (cases "c = sep")
    case True
    with Cons.prems have "count_list cs sep = 0" by simp
    then have "sep \<notin> set cs" by (simp add: count_list_0_iff)
    with True show ?thesis by (simp add: strings_Split_no_sep)
  next
    case False
    with Cons show ?thesis by simp
  qed
qed

lemma strings_Contains_iff: "strings_Contains s t \<longleftrightarrow> (\<exists>p q. s = p @ t @ q)"
proof (induction s)
  case Nil
  then show ?case by auto
next
  case (Cons c cs)
  show ?case
  proof
    assume "strings_Contains (c # cs) t"
    then consider "prefix t (c # cs)" | "strings_Contains cs t" by auto
    then show "\<exists>p q. c # cs = p @ t @ q"
    proof cases
      case 1
      then obtain q where "c # cs = t @ q" by (auto simp: prefix_def)
      then have "c # cs = [] @ t @ q" by simp
      then show ?thesis by blast
    next
      case 2
      with Cons.IH obtain p q where "cs = p @ t @ q" by blast
      then have "c # cs = (c # p) @ t @ q" by simp
      then show ?thesis by blast
    qed
  next
    assume "\<exists>p q. c # cs = p @ t @ q"
    then obtain p q where pq: "c # cs = p @ t @ q" by blast
    show "strings_Contains (c # cs) t"
    proof (cases p)
      case Nil
      with pq have "prefix t (c # cs)" by (simp add: prefix_def)
      then show ?thesis by simp
    next
      case (Cons a p')
      with pq have "cs = p' @ t @ q" by simp
      with Cons.IH have "strings_Contains cs t" by blast
      then show ?thesis by simp
    qed
  qed
qed

lemma ndkVersion_lines_filter:
  "ndkVersion_lines ls =
     (case filter (\<lambda>l. strings_Contains (strings_ToLower l) ''pkg.revision''
                        \<and> count_list l (CHR ''='') = 1) ls of
        [] \<Rightarrow> []
      | l # _ \<Rightarrow> strings_TrimSpace (valueAfterEq l))"
  by (induction ls)
     (auto simp: length_strings_Split strings_Split_one_sep valueAfterEq_def Let_def)

lemma ndkVersion_lines_skip:
  "\<forall>l \<in> set before. \<not> (strings_Contains (strings_ToLower l) ''pkg.revision''
       \<and> length (strings_Split l (CHR ''='')) = 2) \<Longrightarrow>
   ndkVersion_lines (before @ ls) = ndkVersion_lines ls"
  by (induction before) (auto simp: Let_def)

subsection \<open>What the probe returns\<close>

text \<open>
  Claim C3, as amended. The probe returns the trimmed text after the \<^verbatim>\<open>=\<close> of the first
  line that contains the revision key, whatever its case, and has exactly one \<^verbatim>\<open>=\<close>; it
  returns the empty version when the content has no such line. Lines that contain the
  key but have no \<^verbatim>\<open>=\<close> or more than one are passed over.
\<close>

theorem ndkVersion_content_first_single_eq_line:
  "ndkVersion_content content =
     (case filter (\<lambda>l. strings_Contains (strings_ToLower l) ''pkg.revision''
                        \<and> count_list l (CHR ''='') = 1)
             (strings_Split content (CHR 0x0A)) of
        [] \<Rightarrow> []
      | l # _ \<Rightarrow> strings_TrimSpace (valueAfterEq l))"
  unfolding ndkVersion_content_def by (rule ndkVersion_lines_filter)

theorem ndkVersion_content_first_single_eq_line_witness:
  "ndkVersion_content (''Pkg.Revision = 1=2'' @ [CHR 0x0A] @ '' pKG.revision =  23.1.7779620 '')
     = ''23.1.7779620''"
  using ndkVersion_content_first_single_eq_line
          [of "''Pkg.Revision = 1=2'' @ [CHR 0x0A] @ '' pKG.revision =  23.1.7779620 ''"]
  by (simp add: strings_ToLower_def toLower_byte_def strings_TrimSpace_def isSpace_def
        valueAfterEq_def)

text \<open>
  Claim C3 as the specification states it does not hold: on a content whose first
  revision line has two \<^verbatim>\<open>=\<close>, the value after the first \<^verbatim>\<open>=\<close> of that line is \<^verbatim>\<open>1=2\<close>, and
  the probe returns the value of the second revision line instead.
\<close>

theorem ndkVersion_content_claimed_counterexample:
  "ndkVersion_content (''Pkg.Revision = 1=2'' @ [CHR 0x0A] @ ''Pkg.Revision = 3'') = ''3''
   \<and> claimed_ndkVersion_content (''Pkg.Revision = 1=2'' @ [CHR 0x0A] @ ''Pkg.Revision = 3'')
       = ''1=2''"
  by (simp add: ndkVersion_content_def claimed_ndkVersion_content_def strings_ToLower_def
        toLower_byte_def strings_TrimSpace_def isSpace_def valueAfterEq_def)

text \<open>
  Claim C9. The revision key is looked for anywhere in the lowercased line: once the
  lines before it have been passed over, a line that contains \<^verbatim>\<open>pkg.revision\<close> at any
  position is taken as the revision line when it splits at \<^verbatim>\<open>=\<close> into exactly two parts,
  and is passed over otherwise, so that a later line supplies the result.
\<close>

theorem ndkVersion_revision_line_by_containment:
  assumes "\<forall>l \<in> set before. \<not> (strings_Contains (strings_ToLower l) ''pkg.revision''
             \<and> length (strings_Split l (CHR ''='')) = 2)"
      and "strings_ToLower line = pre @ ''pkg.revision'' @ post"
  shows "ndkVersion_lines (before @ line # rest) =
           (if length (strings_Split line (CHR ''='')) = 2
            then strings_TrimSpace (strings_Split line (CHR ''='') ! 1)
            else ndkVersion_lines rest)"
proof -
  have "strings_Contains (strings_ToLower line) ''pkg.revision''"
    using assms(2) by (auto simp: strings_Contains_iff)
  then have "ndkVersion_lines (line # rest) =
           (if length (strings_Split line (CHR ''='')) = 2
            then strings_TrimSpace (strings_Split line (CHR ''='') ! 1)
            else ndkVersion_lines rest)"
    by (simp add: Let_def)
  with ndkVersion_lines_skip [OF assms(1)] show ?thesis by simp
qed

theorem ndkVersion_revision_line_by_containment_witness:
  "ndkVersion_lines ([''Pkg.Desc = Android NDK'', ''Pkg.Revision''] @
       ''# the Pkg.Revision key = 1 = 2'' # [''Url = pkg.revision.html '']) = ''pkg.revision.html''"
proof -
  have a: "\<forall>l \<in> set [''Pkg.Desc = Android NDK'', ''Pkg.Revision''].
             \<not> (strings_Contains (strings_ToLower l) ''pkg.revision''
                \<and> length (strings_Split l (CHR ''='')) = 2)"
    by (simp add: strings_ToLower_def toLower_byte_def)
  have b: "strings_ToLower ''# the Pkg.Revision key = 1 = 2'' =
             ''# the '' @ ''pkg.revision'' @ '' key = 1 = 2''"
    by (simp add: strings_ToLower_def toLower_byte_def)
  show ?thesis
    using ndkVersion_revision_line_by_containment [OF a b, of "[''Url = pkg.revision.html '']"]
    by (simp add: strings_ToLower_def toLower_byte_def strings_TrimSpace_def isSpace_def)
qed

text \<open>
  Claim C7. The probe returns the empty version when reading the metadata file fails,
  because the file is missing or because the read is refused, and when no line of the
  content contains the revision key. The probe has no error result: it returns a version
  string on every input.
\<close>

theorem ndkVersion_empty_without_metadata:
  "(fileutil_ReadStringFromFile h fs (filepath_Join [ndkPath, ''source.properties'']) = Inl err
      \<longrightarrow> ndkVersion h fs ndkPath = [])
   \<and> (fs (filepath_Clean (filepath_Join [ndkPath, ''source.properties''])) = None
      \<longrightarrow> ndkVersion h fs ndkPath = [])
   \<and> (read_denied h (filepath_Join [ndkPath, ''source.properties''])
      \<longrightarrow> ndkVersion h fs ndkPath = [])
   \<and> (fileutil_ReadStringFromFile h fs (filepath_Join [ndkPath, ''source.properties''])
         = Inr content
       \<and> (\<forall>l \<in> set (strings_Split content (CHR 0x0A)).
             \<not> strings_Contains (strings_ToLower l) ''pkg.revision'')
      \<longrightarrow> ndkVersion h fs ndkPath = [])"
proof -
  have "ndkVersion_lines ls = []"
    if "\<forall>l \<in> set ls. \<not> strings_Contains (strings_ToLower l) ''pkg.revision''" for ls
    using that by (induction ls) auto
  then show ?thesis
    by (auto simp: ndkVersion_def fileutil_ReadStringFromFile_def ndkVersion_content_def
             Let_def split: option.splits)
qed

theorem ndkVersion_empty_without_metadata_witness:
  "ndkVersion exampleHost Map.empty ''/sdk/ndk-bundle'' = []
   \<and> ndkVersion (exampleHost\<lparr>read_denied := (\<lambda>p. True)\<rparr>)
         (files (exampleState ''17.2.4988734'')) ''/sdk/ndk-bundle'' = []
   \<and> ndkVersion exampleHost
         [''/sdk/ndk-bundle/source.properties'' \<mapsto> \<lparr>perm = 420, data = ''Pkg.Desc = Android NDK''\<rparr>]
         ''/sdk/ndk-bundle'' = []"
proof -
  let ?p = "filepath_Join [''/sdk/ndk-bundle'', ''source.properties'']"
  let ?fs = "[''/sdk/ndk-bundle/source.properties'' \<mapsto>
                \<lparr>perm = 420, data = ''Pkg.Desc = Android NDK''\<rparr>]"
  have p: "?p = ''/sdk/ndk-bundle/source.properties''"
    by (simp add: filepath_Join_def filepath_Clean_def)
  have missing: "Map.empty (filepath_Clean ?p) = (None :: fileinfo option)"
    by simp
  have denied: "read_denied (exampleHost\<lparr>read_denied := (\<lambda>p. True)\<rparr>) ?p"
    by simp
  have content: "fileutil_ReadStringFromFile exampleHost ?fs ?p = Inr ''Pkg.Desc = Android NDK''"
    by (simp add: p fileutil_ReadStringFromFile_def filepath_Clean_def exampleHost_def)
  have nokey: "\<forall>l \<in> set (strings_Split ''Pkg.Desc = Android NDK'' (CHR 0x0A)).
                 \<not> strings_Contains (strings_ToLower l) ''pkg.revision''"
    by (simp add: strings_ToLower_def toLower_byte_def)
  show ?thesis
    using ndkVersion_empty_without_metadata
            [of exampleHost Map.empty "''/sdk/ndk-bundle''"] missing
          ndkVersion_empty_without_metadata
            [of "exampleHost\<lparr>read_denied := (\<lambda>p. True)\<rparr>"
                "files (exampleState ''17.2.4988734'')" "''/sdk/ndk-bundle''"] denied
          ndkVersion_empty_without_metadata
            [of exampleHost ?fs "''/sdk/ndk-bundle''" _ "''Pkg.Desc = Android NDK''"]
          content nokey
    by blast
qed

section \<open>Properties of paths\<close>

lemmas path_defs = filepath_Join_def filepath_Clean_def NDK_InstallPathInAndroidHome_def

lemmas probe_defs =
  ndkVersion_def fileutil_ReadStringFromFile_def ndkVersion_content_def strings_ToLower_def
  toLower_byte_def strings_TrimSpace_def isSpace_def

lemma filepath_Clean_not_Nil: "filepath_Clean p \<noteq> []"
  by (simp add: filepath_Clean_def Let_def)

lemma filepath_Join_not_Nil:
  assumes "e \<in> set elem" and "e \<noteq> []"
  shows "filepath_Join elem \<noteq> []"
proof -
  from assms have "dropWhile (\<lambda>e. e = []) elem \<noteq> []"
    by auto
  then show ?thesis
    by (auto simp: filepath_Join_def filepath_Clean_not_Nil split: list.splits)
qed

lemma NDK_InstallPathInAndroidHome_not_Nil: "NDK_InstallPathInAndroidHome v \<noteq> []"
  by (simp add: NDK_InstallPathInAndroidHome_def filepath_Join_not_Nil [of "''ndk''"])

lemma newNDKHome_not_Nil:
  "filepath_Join [root, NDK_InstallPathInAndroidHome v] \<noteq> []"
  by (rule filepath_Join_not_Nil [of "NDK_InstallPathInAndroidHome v"])
     (simp_all add: NDK_InstallPathInAndroidHome_not_Nil)

lemma strings_Split_append:
  "strings_Split (a @ sep # b) sep = strings_Split a sep @ strings_Split b sep"
proof (induction a)
  case Nil
  show ?case by simp
next
  case (Cons c a)
  obtain p ps where "strings_Split a sep = p # ps"
    using strings_Split_not_Nil [of a sep] by (cases "strings_Split a sep") auto
  with Cons show ?case by simp
qed

lemma cleanElems_snoc:
  "plainElem e \<Longrightarrow> cleanElems rooted out (es @ [e]) = cleanElems rooted out es @ [e]"
  by (induction es arbitrary: out) (auto simp: plainElem_def)

lemma strings_Join_snoc:
  "strings_Join (xs @ [e]) sep = (if xs = [] then e else strings_Join xs sep @ sep @ e)"
  by (induction xs sep rule: strings_Join.induct) auto

lemma suffix_strings_Join_snoc: "suffix e (strings_Join (xs @ [e]) sep)"
  by (simp add: strings_Join_snoc suffix_def)


lemma suffix_filepath_Clean:
  assumes "suffix t (strings_Join
             (cleanElems (hd p = CHR ''/'') [] (strings_Split p (CHR ''/''))) ''/'')"
      and "t \<noteq> []" and "p \<noteq> []"
  shows "suffix t (filepath_Clean p)"
proof -
  from assms(1,2) have "strings_Join
      (cleanElems (hd p = CHR ''/'') [] (strings_Split p (CHR ''/''))) ''/'' \<noteq> []"
    by (auto simp: suffix_def)
  with assms show ?thesis
    by (auto simp: filepath_Clean_def Let_def suffix_def)
qed

lemma filepath_Clean_snoc:
  assumes "plainElem e"
  shows "suffix e (filepath_Clean (p @ ''/'' @ e))"
proof (rule suffix_filepath_Clean)
  let ?q = "p @ ''/'' @ e"
  have "strings_Split ?q (CHR ''/'') = strings_Split p (CHR ''/'') @ [e]"
    using assms by (simp add: strings_Split_append strings_Split_no_sep plainElem_def)
  then have "cleanElems (hd ?q = CHR ''/'') [] (strings_Split ?q (CHR ''/'')) =
               cleanElems (hd ?q = CHR ''/'') [] (strings_Split p (CHR ''/'')) @ [e]"
    using assms by (simp add: cleanElems_snoc)
  then show "suffix e (strings_Join
      (cleanElems (hd ?q = CHR ''/'') [] (strings_Split ?q (CHR ''/''))) ''/'')"
    by (simp only: suffix_strings_Join_snoc)
qed (use assms in \<open>auto simp: plainElem_def\<close>)





section \<open>Properties of the location resolver\<close>

lemma currentNDKHome_explicit:
  "env androidNDKHome = Some v \<Longrightarrow> v \<noteq> [] \<Longrightarrow> currentNDKHome env = v"
  by (simp add: currentNDKHome_def os_Getenv_def)

lemma os_Getenv_noValue: "noValue env key \<Longrightarrow> os_Getenv env key = []"
  by (auto simp: noValue_def os_Getenv_def)

lemma os_Getenv_Some: "env key = Some v \<Longrightarrow> os_Getenv env key = v"
  by (simp add: os_Getenv_def)

lemma suffix_Join_ndk_bundle:
  assumes "v \<noteq> []"
  shows "suffix ''ndk-bundle'' (filepath_Join [v, ''ndk-bundle''])"
proof -
  have "plainElem ''ndk-bundle''" by (simp add: plainElem_def)
  from filepath_Clean_snoc [OF this, of v] assms show ?thesis
    by (simp add: filepath_Join_def)
qed

lemma currentNDKHome_not_Nil: "currentNDKHome env \<noteq> []"
  by (simp add: currentNDKHome_def filepath_Join_not_Nil [of "''ndk-bundle''"])

text \<open>
  Claim C2. For every process environment, the location resolver returns the value of
  \<^verbatim>\<open>ANDROID_NDK_HOME\<close> when that value is not empty; otherwise the value of
  \<^verbatim>\<open>ANDROID_HOME\<close> joined with \<^verbatim>\<open>ndk-bundle\<close> when it has one; otherwise the same for
  \<^verbatim>\<open>ANDROID_SDK_ROOT\<close>; otherwise the same for \<^verbatim>\<open>HOME\<close>; otherwise the bare name
  \<^verbatim>\<open>ndk-bundle\<close>. (A variable is set, as the specification uses the word, when its value
  is not empty.) The resolver is a function of the environment alone: it reads no file,
  has no error result, and its result is never the empty string.
\<close>

theorem currentNDKHome_precedence:
  "(env ''ANDROID_NDK_HOME'' = Some v \<and> v \<noteq> [] \<longrightarrow> currentNDKHome env = v)
   \<and> (noValue env ''ANDROID_NDK_HOME'' \<and> env ''ANDROID_HOME'' = Some v \<and> v \<noteq> []
        \<longrightarrow> currentNDKHome env = filepath_Join [v, ''ndk-bundle''])
   \<and> (noValue env ''ANDROID_NDK_HOME'' \<and> noValue env ''ANDROID_HOME''
        \<and> env ''ANDROID_SDK_ROOT'' = Some v \<and> v \<noteq> []
        \<longrightarrow> currentNDKHome env = filepath_Join [v, ''ndk-bundle''])
   \<and> (noValue env ''ANDROID_NDK_HOME'' \<and> noValue env ''ANDROID_HOME''
        \<and> noValue env ''ANDROID_SDK_ROOT'' \<and> env ''HOME'' = Some v \<and> v \<noteq> []
        \<longrightarrow> currentNDKHome env = filepath_Join [v, ''ndk-bundle''])
   \<and> (noValue env ''ANDROID_NDK_HOME'' \<and> noValue env ''ANDROID_HOME''
        \<and> noValue env ''ANDROID_SDK_ROOT'' \<and> noValue env ''HOME''
        \<longrightarrow> currentNDKHome env = ''ndk-bundle'')
   \<and> (noValue env ''ANDROID_NDK_HOME'' \<longrightarrow> suffix ''ndk-bundle'' (currentNDKHome env))
   \<and> currentNDKHome env \<noteq> []"
proof -
  have J: "filepath_Join [w, ''ndk-bundle''] \<noteq> []" for w
    by (rule filepath_Join_not_Nil [of "''ndk-bundle''"]) simp_all
  show ?thesis
    by (intro conjI impI)
       (simp_all add: currentNDKHome_def androidNDKHome_def os_Getenv_noValue os_Getenv_Some
          suffix_Join_ndk_bundle J)
qed

theorem currentNDKHome_precedence_witness:
  "currentNDKHome [''ANDROID_NDK_HOME'' \<mapsto> ''/opt/ndk'', ''ANDROID_HOME'' \<mapsto> ''/sdk''] = ''/opt/ndk''
   \<and> currentNDKHome [''ANDROID_NDK_HOME'' \<mapsto> [], ''ANDROID_HOME'' \<mapsto> ''/sdk/'',
                      ''ANDROID_SDK_ROOT'' \<mapsto> ''/other''] = ''/sdk/ndk-bundle''
   \<and> currentNDKHome [''ANDROID_SDK_ROOT'' \<mapsto> ''/sdk'', ''HOME'' \<mapsto> ''/home/ci''] = ''/sdk/ndk-bundle''
   \<and> currentNDKHome [''HOME'' \<mapsto> ''/home/ci''] = ''/home/ci/ndk-bundle''
   \<and> currentNDKHome Map.empty = ''ndk-bundle''"
  using currentNDKHome_precedence
          [of "[''ANDROID_NDK_HOME'' \<mapsto> ''/opt/ndk'', ''ANDROID_HOME'' \<mapsto> ''/sdk'']" "''/opt/ndk''"]
        currentNDKHome_precedence
          [of "[''ANDROID_NDK_HOME'' \<mapsto> [], ''ANDROID_HOME'' \<mapsto> ''/sdk/'',
                ''ANDROID_SDK_ROOT'' \<mapsto> ''/other'']" "''/sdk/''"]
        currentNDKHome_precedence
          [of "[''ANDROID_SDK_ROOT'' \<mapsto> ''/sdk'', ''HOME'' \<mapsto> ''/home/ci'']" "''/sdk''"]
        currentNDKHome_precedence [of "[''HOME'' \<mapsto> ''/home/ci'']" "''/home/ci''"]
        currentNDKHome_precedence [of Map.empty]
  by (simp add: noValue_def path_defs)

section \<open>Properties of the operations on the host\<close>

lemma os_Chmod_frame:
  assumes "os_Chmod h name mode s = (r, s')"
  shows "environ s' = environ s" and "envstore s' = envstore s" and "calls s' = calls s"
    and "map_option data (files s' p) = map_option data (files s p)"
    and "p \<noteq> filepath_Clean name \<Longrightarrow> files s' p = files s p"
  using assms by (auto simp: os_Chmod_def split: option.splits if_splits)

lemma ReadStringFromFile_data_only:
  assumes "\<And>p. map_option data (fs' p) = map_option data (fs p)"
  shows "fileutil_ReadStringFromFile h fs' pth = fileutil_ReadStringFromFile h fs pth"
proof -
  have "map_option data (fs' (filepath_Clean pth)) = map_option data (fs (filepath_Clean pth))"
    by (rule assms)
  then show ?thesis
    by (cases "fs' (filepath_Clean pth)"; cases "fs (filepath_Clean pth)")
       (auto simp: fileutil_ReadStringFromFile_def)
qed

lemma ndkVersion_data_only:
  assumes "\<And>p. map_option data (fs' p) = map_option data (fs p)"
  shows "ndkVersion h fs' ndkPath = ndkVersion h fs ndkPath"
  by (simp add: ndkVersion_def ReadStringFromFile_data_only [OF assms])

lemma export_eq:
  "tools_ExportEnvironmentWithEnvman h k v s =
     (envman_add h k v (envstore s),
      if envman_add h k v (envstore s) = None
      then s\<lparr>envstore := envstore s @ [(k, v)]\<rparr> else s)"
  by (simp add: tools_ExportEnvironmentWithEnvman_def split: option.splits)

lemma reinstallNDK_Inr:
  assumes "reinstallNDK h v sdk cur s = (Inr new, s1)"
  shows "new = filepath_Join [GetAndroidHome sdk, NDK_InstallPathInAndroidHome v]"
    and "calls s1 = calls s @ [RemoveAll cur, SdkmanagerInstall v]"
    and "environ s1 = environ s" and "envstore s1 = envstore s"
    and "removeAll_failure h cur (files s) = None"
    and "sdkmanager_New h sdk (removeTree cur (files s)) = None"
    and "sdkmanager_install h v sdk (removeTree cur (files s)) = (None, files s1)"
  using assms
  by (auto simp: reinstallNDK_def os_RemoveAll_def run_InstallCommand_def Let_def
           split: option.splits prod.splits)

lemma reinstallNDK_Inl:
  assumes "reinstallNDK h v sdk cur s = (Inl err, s1)"
  shows "environ s1 = environ s" and "envstore s1 = envstore s"
  using assms
  by (auto simp: reinstallNDK_def os_RemoveAll_def run_InstallCommand_def Let_def
           split: option.splits prod.splits)

lemma publishNDK_eq:
  "publishNDK h new s =
     (let pathEntry = (''PATH'', os_Getenv (environ s) ''PATH'' @ '':'' @ new);
          e1 = envman_add h ''PATH'' (snd pathEntry) (envstore s);
          e2 = envman_add h androidNDKHome new (envstore s @ [pathEntry])
      in if e1 \<noteq> None then (e1, s)
         else if e2 \<noteq> None then (e2, s\<lparr>envstore := envstore s @ [pathEntry]\<rparr>)
         else (None, s\<lparr>envstore := envstore s @ [pathEntry, (androidNDKHome, new)]\<rparr>))"
  by (auto simp: publishNDK_def export_eq Let_def split: option.splits)

lemma publishNDK_cases:
  assumes "publishNDK h new s = (r, s')"
  defines "pathEntry \<equiv> (''PATH'', os_Getenv (environ s) ''PATH'' @ '':'' @ new)"
  shows "environ s' = environ s" and "files s' = files s" and "calls s' = calls s"
    and "(r = None \<and> envstore s' = envstore s @ [pathEntry, (androidNDKHome, new)])
         \<or> (r \<noteq> None \<and> envstore s' = envstore s)
         \<or> (r \<noteq> None \<and> envstore s' = envstore s @ [pathEntry]
             \<and> envman_add h androidNDKHome new (envstore s @ [pathEntry]) \<noteq> None)"
  using assms(1) unfolding publishNDK_eq pathEntry_def
  by (auto simp: Let_def simp del: not_None_eq split: if_splits)

lemma updateNDK_alt:
  "updateNDK h version androidSdk s =
     (let currentNdkHome = currentNDKHome (environ s);
          currentVersion = ndkVersion h (files s) currentNdkHome
      in if currentVersion = version then (None, s)
         else
           (case reinstallNDK h version androidSdk currentNdkHome s of
              (Inl err, s1) \<Rightarrow> (Some err, s1)
            | (Inr newNDKHome, s1) \<Rightarrow> publishNDK h newNDKHome s1))"
  by (simp add: updateNDK_def reinstallNDK_def publishNDK_def Let_def
           split: prod.splits option.splits)

lemma main_alt:
  "main h config s =
     (case os_Chmod h (GradlewPath config) gradlewPerm s of
        (Some err, s1) \<Rightarrow> (Some (ChmodFailed err), s1)
      | (None, s1) \<Rightarrow>
          (case sdk_NewDefaultModel h (AndroidHome config) (AndroidSDKRoot config) (files s1) of
             Inl err \<Rightarrow> (Some (SdkInitFailed err), s1)
           | Inr androidSdk \<Rightarrow>
               (case main_ndk h config androidSdk s1 of
                  (Some f, s2) \<Rightarrow> (Some f, s2)
                | (None, s2) \<Rightarrow> main_components h config androidSdk s2)))"
  unfolding main_def main_ndk_def main_components_def by (rule refl)

lemma main_components_frame:
  assumes "main_components h config androidSdk s = (r, s')"
  shows "environ s' = environ s" and "envstore s' = envstore s" and "calls s' = calls s"
  using assms
  by (auto simp: main_components_def androidcomponents_InstallLicences_def
        androidcomponents_Ensure_def split: prod.splits option.splits)

lemma updateNDK_environ:
  assumes "updateNDK h version androidSdk s = (r, s')"
  shows "environ s' = environ s"
proof (cases "ndkVersion h (files s) (currentNDKHome (environ s)) = version")
  case True
  with assms show ?thesis by (simp add: updateNDK_alt)
next
  case False
  let ?cur = "currentNDKHome (environ s)"
  obtain res s1 where re: "reinstallNDK h version androidSdk ?cur s = (res, s1)"
    by (cases "reinstallNDK h version androidSdk ?cur s")
  show ?thesis
  proof (cases res)
    case (Inl err)
    with assms re False have "s' = s1" by (auto simp: updateNDK_alt Let_def)
    with reinstallNDK_Inl(1) [OF re [unfolded Inl]] show ?thesis by simp
  next
    case (Inr new)
    with assms re False have pub: "publishNDK h new s1 = (r, s')"
      by (auto simp: updateNDK_alt Let_def)
    from publishNDK_cases(1) [OF pub] reinstallNDK_Inr(3) [OF re [unfolded Inr]]
    show ?thesis by simp
  qed
qed

section \<open>The example host at work\<close>

lemma example_currentNDKHome:
  "currentNDKHome (environ (exampleState installed)) = ''/sdk/ndk-bundle''"
  by (simp add: currentNDKHome_def os_Getenv_def androidNDKHome_def exampleState_def path_defs)

lemma example_probe_17:
  "ndkVersion exampleHost (files (exampleState ''17.2.4988734'')) ''/sdk/ndk-bundle''
     = ''17.2.4988734''"
  by (simp add: probe_defs path_defs exampleState_def exampleHost_def)

lemma example_probe_18:
  "ndkVersion exampleHost (files (exampleState ''18.1.5063045'')) ''/sdk/ndk-bundle''
     = ''18.1.5063045''"
  by (simp add: probe_defs path_defs exampleState_def exampleHost_def)

lemma example_newNDKHome:
  "filepath_Join [''/sdk'', NDK_InstallPathInAndroidHome ''22.1.7171670'']
     = ''/sdk/ndk/22.1.7171670''"
  by (simp add: path_defs)

lemma example_reinstall:
  "reinstallNDK exampleHost ''22.1.7171670'' (Model ''/sdk'') ''/sdk/ndk-bundle''
       (exampleState ''17.2.4988734'') =
     (Inr ''/sdk/ndk/22.1.7171670'',
      (exampleState ''17.2.4988734'')
        \<lparr>files := (removeTree ''/sdk/ndk-bundle'' (files (exampleState ''17.2.4988734'')))
             (''/sdk/ndk/22.1.7171670/source.properties'' \<mapsto>
                \<lparr>perm = 420, data = ''Pkg.Revision = 22.1.7171670''\<rparr>),
         calls := [RemoveAll ''/sdk/ndk-bundle'', SdkmanagerInstall ''22.1.7171670'']\<rparr>)"
  by (simp add: reinstallNDK_def os_RemoveAll_def run_InstallCommand_def exampleHost_def
        exampleState_def path_defs)

lemma example_update:
  "updateNDK exampleHost ''22.1.7171670'' (Model ''/sdk'') (exampleState ''17.2.4988734'') =
     (None,
      (exampleState ''17.2.4988734'')
        \<lparr>files := (removeTree ''/sdk/ndk-bundle'' (files (exampleState ''17.2.4988734'')))
             (''/sdk/ndk/22.1.7171670/source.properties'' \<mapsto>
                \<lparr>perm = 420, data = ''Pkg.Revision = 22.1.7171670''\<rparr>),
         envstore := [(''PATH'', ''/usr/bin:/sdk/ndk/22.1.7171670''),
                      (''ANDROID_NDK_HOME'', ''/sdk/ndk/22.1.7171670'')],
         calls := [RemoveAll ''/sdk/ndk-bundle'', SdkmanagerInstall ''22.1.7171670'']\<rparr>)"
proof -
  have env: "envman_add exampleHost k v store = None" for k v store
    by (simp add: exampleHost_def)
  have path: "os_Getenv (environ (exampleState installed)) ''PATH'' = ''/usr/bin''" for installed
    by (simp add: exampleState_def os_Getenv_def)
  have store: "envstore (exampleState installed) = []" for installed
    by (simp add: exampleState_def)
  show ?thesis
    by (simp add: updateNDK_alt example_currentNDKHome example_probe_17 example_reinstall
          publishNDK_eq androidNDKHome_def Let_def env path store)
qed

lemma example_update':
  "updateNDK exampleHost ''22.1.7171670'' (Model ''/sdk'') (exampleState ''17.2.4988734'') =
     (None, exampleStateInstalled)"
  by (simp add: example_update exampleStateInstalled_def)

lemma example_probe_next:
  "ndkVersion exampleHost (files exampleNextStep) ''/sdk/ndk/22.1.7171670'' = ''22.1.7171670''"
  by (simp add: exampleNextStep_def exampleStateInstalled_def probe_defs path_defs
        exampleHost_def)

lemma example_probe_installed:
  "ndkVersion exampleHost (files exampleStateInstalled) ''/sdk/ndk-bundle'' = []"
  by (simp add: probe_defs path_defs exampleStateInstalled_def removeTree_def under_def)

lemma example_currentNDKHome_installed:
  "currentNDKHome (environ exampleStateInstalled) = ''/sdk/ndk-bundle''"
  by (simp add: exampleStateInstalled_def example_currentNDKHome)

lemma example_probe_17_refuses:
  "ndkVersion exampleHost_envman_refuses (files (exampleState ''17.2.4988734''))
     ''/sdk/ndk-bundle'' = ''17.2.4988734''"
  by (simp add: probe_defs path_defs exampleState_def exampleHost_def
        exampleHost_envman_refuses_def)

lemma example_reinstall_refuses:
  "reinstallNDK exampleHost_envman_refuses ''22.1.7171670'' (Model ''/sdk'') ''/sdk/ndk-bundle''
       (exampleState ''17.2.4988734'') =
     (Inr ''/sdk/ndk/22.1.7171670'',
      (exampleState ''17.2.4988734'')
        \<lparr>files := (removeTree ''/sdk/ndk-bundle'' (files (exampleState ''17.2.4988734'')))
             (''/sdk/ndk/22.1.7171670/source.properties'' \<mapsto>
                \<lparr>perm = 420, data = ''Pkg.Revision = 22.1.7171670''\<rparr>),
         calls := [RemoveAll ''/sdk/ndk-bundle'', SdkmanagerInstall ''22.1.7171670'']\<rparr>)"
  by (simp add: reinstallNDK_def os_RemoveAll_def run_InstallCommand_def exampleHost_def
        exampleHost_envman_refuses_def exampleState_def path_defs)

lemma example_chmod:
  "os_Chmod exampleHost (GradlewPath (exampleConfig requested)) gradlewPerm
       (exampleState installed) =
     (None, (exampleState installed)
        \<lparr>files := (files (exampleState installed))
             (''gradlew'' \<mapsto> \<lparr>perm = 504, data = ''#!/bin/sh''\<rparr>)\<rparr>)"
  by (simp add: os_Chmod_def exampleConfig_def exampleState_def exampleHost_def
        filepath_Clean_def gradlewPerm_def)

lemma example_sdk:
  "sdk_NewDefaultModel exampleHost (AndroidHome (exampleConfig requested))
       (AndroidSDKRoot (exampleConfig requested)) fs = Inr (Model ''/sdk'')"
  by (simp add: exampleHost_def exampleConfig_def)

section \<open>Properties of updateNDK\<close>

lemma install_effects:
  assumes "updateNDK h version androidSdk s = (None, s')"
      and "ndkVersion h (files s) (currentNDKHome (environ s)) \<noteq> version"
  shows "calls s' = calls s @ [RemoveAll (currentNDKHome (environ s)), SdkmanagerInstall version]"
    and "removeAll_failure h (currentNDKHome (environ s)) (files s) = None"
    and "sdkmanager_install h version androidSdk
           (removeTree (currentNDKHome (environ s)) (files s)) = (None, files s')"
    and "envstore s' = envstore s @
           [(''PATH'', os_Getenv (environ s) ''PATH'' @ '':'' @
               filepath_Join [GetAndroidHome androidSdk, NDK_InstallPathInAndroidHome version]),
            (androidNDKHome,
               filepath_Join [GetAndroidHome androidSdk, NDK_InstallPathInAndroidHome version])]"
    and "environ s' = environ s"
proof -
  let ?cur = "currentNDKHome (environ s)"
  obtain res s1 where re: "reinstallNDK h version androidSdk ?cur s = (res, s1)"
    by (cases "reinstallNDK h version androidSdk ?cur s")
  from assms re obtain new where new: "res = Inr new" and pub: "publishNDK h new s1 = (None, s')"
    by (cases res) (auto simp: updateNDK_alt Let_def)
  note r = reinstallNDK_Inr [OF re [unfolded new]]
  note p = publishNDK_cases [OF pub]
  show "calls s' = calls s @ [RemoveAll ?cur, SdkmanagerInstall version]"
    using r(2) p(3) by simp
  show "removeAll_failure h ?cur (files s) = None" by (rule r(5))
  show "sdkmanager_install h version androidSdk (removeTree ?cur (files s)) = (None, files s')"
    using r(7) p(2) by simp
  show "environ s' = environ s" using r(3) p(1) by simp
  show "envstore s' = envstore s @
           [(''PATH'', os_Getenv (environ s) ''PATH'' @ '':'' @
               filepath_Join [GetAndroidHome androidSdk, NDK_InstallPathInAndroidHome version]),
            (androidNDKHome,
               filepath_Join [GetAndroidHome androidSdk, NDK_InstallPathInAndroidHome version])]"
    using p(4) r(1,3,4) by simp
qed

text \<open>
  Claim C1, as amended. When the version probed at the current NDK location equals the
  requested version, \<^verbatim>\<open>updateNDK\<close> returns success and leaves the whole state as it was:
  no file is removed, the package manager is not invoked, nothing is exported.
  Consequently an invocation that follows a successful install of that version does
  nothing, provided it runs with \<^verbatim>\<open>ANDROID_NDK_HOME\<close> as the first invocation published
  it, as a later step of the pipeline does, and the metadata that the package manager put
  at that path records the version: the resolver then returns the new path and the probe
  matches.
\<close>

theorem updateNDK_same_version_noop:
  "(ndkVersion h (files s) (currentNDKHome (environ s)) = version
      \<longrightarrow> updateNDK h version androidSdk s = (None, s))
   \<and> (updateNDK h version androidSdk s = (None, s1)
       \<and> ndkVersion h (files s) (currentNDKHome (environ s)) \<noteq> version
       \<and> environ s2 androidNDKHome = map_of (rev (envstore s1)) androidNDKHome
       \<and> ndkVersion h (files s2)
            (filepath_Join [GetAndroidHome androidSdk, NDK_InstallPathInAndroidHome version])
           = version
      \<longrightarrow> updateNDK h version androidSdk s2 = (None, s2))"
proof (intro conjI impI)
  assume "ndkVersion h (files s) (currentNDKHome (environ s)) = version"
  then show "updateNDK h version androidSdk s = (None, s)"
    by (simp add: updateNDK_alt)
next
  let ?new = "filepath_Join [GetAndroidHome androidSdk, NDK_InstallPathInAndroidHome version]"
  assume a: "updateNDK h version androidSdk s = (None, s1)
       \<and> ndkVersion h (files s) (currentNDKHome (environ s)) \<noteq> version
       \<and> environ s2 androidNDKHome = map_of (rev (envstore s1)) androidNDKHome
       \<and> ndkVersion h (files s2) ?new = version"
  then have "map_of (rev (envstore s1)) androidNDKHome = Some ?new"
    using install_effects(4) [of h version androidSdk s s1] by simp
  with a have "environ s2 androidNDKHome = Some ?new" by simp
  then have "currentNDKHome (environ s2) = ?new"
    by (rule currentNDKHome_explicit) (rule newNDKHome_not_Nil)
  with a show "updateNDK h version androidSdk s2 = (None, s2)"
    by (simp add: updateNDK_alt)
qed

theorem updateNDK_same_version_noop_witness:
  "updateNDK exampleHost ''18.1.5063045'' (Model ''/sdk'') (exampleState ''18.1.5063045'')
     = (None, exampleState ''18.1.5063045'')
   \<and> updateNDK exampleHost ''22.1.7171670'' (Model ''/sdk'') (exampleState ''17.2.4988734'')
     = (None, exampleStateInstalled)
   \<and> environ exampleNextStep ''ANDROID_NDK_HOME''
     = map_of (rev (envstore exampleStateInstalled)) ''ANDROID_NDK_HOME''
   \<and> updateNDK exampleHost ''22.1.7171670'' (Model ''/sdk'') exampleNextStep
     = (None, exampleNextStep)"
proof -
  have a: "ndkVersion exampleHost (files (exampleState ''18.1.5063045''))
             (currentNDKHome (environ (exampleState ''18.1.5063045''))) = ''18.1.5063045''"
    by (simp add: example_currentNDKHome example_probe_18)
  have b: "ndkVersion exampleHost (files (exampleState ''17.2.4988734''))
             (currentNDKHome (environ (exampleState ''17.2.4988734''))) \<noteq> ''22.1.7171670''"
    by (simp add: example_currentNDKHome example_probe_17)
  have c: "environ exampleNextStep androidNDKHome
             = map_of (rev (envstore exampleStateInstalled)) androidNDKHome"
    by (simp add: exampleNextStep_def exampleStateInstalled_def androidNDKHome_def)
  have d: "ndkVersion exampleHost (files exampleNextStep)
             (filepath_Join [GetAndroidHome (Model ''/sdk''),
                             NDK_InstallPathInAndroidHome ''22.1.7171670'']) = ''22.1.7171670''"
    by (simp add: example_newNDKHome example_probe_next)
  from updateNDK_same_version_noop
         [of exampleHost "exampleState ''18.1.5063045''" "''18.1.5063045''" "Model ''/sdk''"] a
  have first: "updateNDK exampleHost ''18.1.5063045'' (Model ''/sdk'')
                 (exampleState ''18.1.5063045'') = (None, exampleState ''18.1.5063045'')"
    by blast
  from updateNDK_same_version_noop
         [of exampleHost "exampleState ''17.2.4988734''" "''22.1.7171670''" "Model ''/sdk''"
             exampleStateInstalled exampleNextStep] example_update' b c d
  have second: "updateNDK exampleHost ''22.1.7171670'' (Model ''/sdk'') exampleNextStep
                  = (None, exampleNextStep)"
    by blast
  from first example_update' c second show ?thesis
    by (simp add: androidNDKHome_def)
qed

text \<open>
  Claim C1 as the specification states it does not hold: \<^verbatim>\<open>updateNDK\<close> exports the new
  NDK home through \<^verbatim>\<open>envman\<close> and leaves the environment of its own process as it was.
  Invoked again right after a successful install, in the state that the install left, it
  still resolves the legacy location, finds no metadata there, and removes and installs
  once more.
\<close>

theorem updateNDK_twice_reinstalls_counterexample:
  "updateNDK exampleHost ''22.1.7171670'' (Model ''/sdk'') (exampleState ''17.2.4988734'')
     = (None, exampleStateInstalled)
   \<and> fst (updateNDK exampleHost ''22.1.7171670'' (Model ''/sdk'') exampleStateInstalled) = None
   \<and> calls (snd (updateNDK exampleHost ''22.1.7171670'' (Model ''/sdk'') exampleStateInstalled))
     = calls exampleStateInstalled
       @ [RemoveAll ''/sdk/ndk-bundle'', SdkmanagerInstall ''22.1.7171670'']"
proof -
  have env: "envman_add exampleHost k v store = None" for k v store
    by (simp add: exampleHost_def)
  have re: "reinstallNDK exampleHost ''22.1.7171670'' (Model ''/sdk'') ''/sdk/ndk-bundle''
              exampleStateInstalled =
     (Inr ''/sdk/ndk/22.1.7171670'',
      exampleStateInstalled
        \<lparr>files := (removeTree ''/sdk/ndk-bundle'' (files exampleStateInstalled))
             (''/sdk/ndk/22.1.7171670/source.properties'' \<mapsto>
                \<lparr>perm = 420, data = ''Pkg.Revision = 22.1.7171670''\<rparr>),
         calls := calls exampleStateInstalled
             @ [RemoveAll ''/sdk/ndk-bundle'', SdkmanagerInstall ''22.1.7171670'']\<rparr>)"
    by (simp add: reinstallNDK_def os_RemoveAll_def run_InstallCommand_def exampleHost_def
          path_defs)
  have "updateNDK exampleHost ''22.1.7171670'' (Model ''/sdk'') exampleStateInstalled =
     (None,
      exampleStateInstalled
        \<lparr>files := (removeTree ''/sdk/ndk-bundle'' (files exampleStateInstalled))
             (''/sdk/ndk/22.1.7171670/source.properties'' \<mapsto>
                \<lparr>perm = 420, data = ''Pkg.Revision = 22.1.7171670''\<rparr>),
         calls := calls exampleStateInstalled
             @ [RemoveAll ''/sdk/ndk-bundle'', SdkmanagerInstall ''22.1.7171670''],
         envstore := envstore exampleStateInstalled
             @ [(''PATH'', os_Getenv (environ exampleStateInstalled) ''PATH''
                            @ '':/sdk/ndk/22.1.7171670''),
                (''ANDROID_NDK_HOME'', ''/sdk/ndk/22.1.7171670'')]\<rparr>)"
    by (simp add: updateNDK_alt example_currentNDKHome_installed example_probe_installed re
          publishNDK_eq Let_def env androidNDKHome_def)
  with example_update' show ?thesis by simp
qed



text \<open>
  Claim C8, as amended. When \<^verbatim>\<open>updateNDK\<close> does not stop at an NDK that is already
  current, it ends in one of three ways: it succeeds and has exported both \<^verbatim>\<open>PATH\<close> and
  \<^verbatim>\<open>ANDROID_NDK_HOME\<close>, in that order; or it fails and has exported nothing; or it fails
  because \<^verbatim>\<open>envman\<close> refused \<^verbatim>\<open>ANDROID_NDK_HOME\<close>, and has exported \<^verbatim>\<open>PATH\<close> alone.
\<close>

theorem updateNDK_publish_cases:
  assumes "updateNDK h version androidSdk s = (r, s')"
      and "ndkVersion h (files s) (currentNDKHome (environ s)) \<noteq> version"
  shows "(r = None \<and> envstore s' = envstore s @
            [(''PATH'', os_Getenv (environ s) ''PATH'' @ '':'' @
                filepath_Join [GetAndroidHome androidSdk, NDK_InstallPathInAndroidHome version]),
             (''ANDROID_NDK_HOME'',
                filepath_Join [GetAndroidHome androidSdk, NDK_InstallPathInAndroidHome version])])
       \<or> (r \<noteq> None \<and> envstore s' = envstore s)
       \<or> (r \<noteq> None \<and> envstore s' = envstore s @
            [(''PATH'', os_Getenv (environ s) ''PATH'' @ '':'' @
                filepath_Join [GetAndroidHome androidSdk, NDK_InstallPathInAndroidHome version])]
           \<and> envman_add h ''ANDROID_NDK_HOME''
                (filepath_Join [GetAndroidHome androidSdk, NDK_InstallPathInAndroidHome version])
                (envstore s' ) \<noteq> None)"
proof -
  let ?cur = "currentNDKHome (environ s)"
  obtain res s1 where re: "reinstallNDK h version androidSdk ?cur s = (res, s1)"
    by (cases "reinstallNDK h version androidSdk ?cur s")
  show ?thesis
  proof (cases res)
    case (Inl err)
    with assms re have "r = Some err" and "s' = s1"
      by (auto simp: updateNDK_alt Let_def)
    with reinstallNDK_Inl(2) [OF re [unfolded Inl]] show ?thesis by simp
  next
    case (Inr new)
    with assms re have pub: "publishNDK h new s1 = (r, s')"
      by (auto simp: updateNDK_alt Let_def)
    note i = reinstallNDK_Inr [OF re [unfolded Inr]]
    from publishNDK_cases(4) [OF pub] i(1,3,4) show ?thesis
      by (auto simp: androidNDKHome_def)
  qed
qed

theorem updateNDK_publish_cases_witness:
  "updateNDK exampleHost ''22.1.7171670'' (Model ''/sdk'') (exampleState ''17.2.4988734'')
     = (None, exampleStateInstalled)
   \<and> envstore exampleStateInstalled
     = envstore (exampleState ''17.2.4988734'') @
       [(''PATH'', ''/usr/bin:/sdk/ndk/22.1.7171670''),
        (''ANDROID_NDK_HOME'', ''/sdk/ndk/22.1.7171670'')]"
proof -
  have b: "ndkVersion exampleHost (files (exampleState ''17.2.4988734''))
             (currentNDKHome (environ (exampleState ''17.2.4988734''))) \<noteq> ''22.1.7171670''"
    by (simp add: example_currentNDKHome example_probe_17)
  have path: "os_Getenv (environ (exampleState ''17.2.4988734'')) ''PATH'' = ''/usr/bin''"
    by (simp add: exampleState_def os_Getenv_def)
  from updateNDK_publish_cases [OF example_update' b]
  show ?thesis
    by (simp add: example_update' example_newNDKHome path)
qed

text \<open>
  Claim C8 as the specification states it does not hold: on a host where \<^verbatim>\<open>envman\<close>
  accepts \<^verbatim>\<open>PATH\<close> and refuses \<^verbatim>\<open>ANDROID_NDK_HOME\<close>, \<^verbatim>\<open>updateNDK\<close> fails after it has
  exported the new \<^verbatim>\<open>PATH\<close>.
\<close>

theorem updateNDK_partial_publish_counterexample:
  "fst (updateNDK exampleHost_envman_refuses ''22.1.7171670'' (Model ''/sdk'')
          (exampleState ''17.2.4988734'')) = Some ''envman add failed''
   \<and> envstore (exampleState ''17.2.4988734'') = []
   \<and> envstore (snd (updateNDK exampleHost_envman_refuses ''22.1.7171670'' (Model ''/sdk'')
          (exampleState ''17.2.4988734''))) = [(''PATH'', ''/usr/bin:/sdk/ndk/22.1.7171670'')]"
proof -
  have env1: "envman_add exampleHost_envman_refuses ''PATH'' v store = None" for v store
    by (simp add: exampleHost_envman_refuses_def exampleHost_def)
  have env2: "envman_add exampleHost_envman_refuses ''ANDROID_NDK_HOME'' v store
                = Some ''envman add failed''" for v store
    by (simp add: exampleHost_envman_refuses_def exampleHost_def)
  have path: "os_Getenv (environ (exampleState installed)) ''PATH'' = ''/usr/bin''" for installed
    by (simp add: exampleState_def os_Getenv_def)
  have store: "envstore (exampleState installed) = []" for installed
    by (simp add: exampleState_def)
  show ?thesis
    by (simp add: updateNDK_alt example_currentNDKHome example_probe_17_refuses
          example_reinstall_refuses publishNDK_eq androidNDKHome_def Let_def env1 env2 path store)
qed

section \<open>Properties of main\<close>

text \<open>
  Claim C10. When the probed version equals the requested one, nothing is published:
  \<^verbatim>\<open>updateNDK\<close> leaves the exported entries and the process environment as they were, and
  so does the whole step, whatever its later phases do.
\<close>

theorem same_version_publishes_nothing:
  assumes "ndkVersion h (files s) (currentNDKHome (environ s)) = version"
  shows "envstore (snd (updateNDK h version androidSdk s)) = envstore s
       \<and> environ (snd (updateNDK h version androidSdk s)) = environ s
       \<and> (NDKVersion config = version \<and> version \<noteq> [] \<longrightarrow>
            envstore (snd (main h config s)) = envstore s
            \<and> environ (snd (main h config s)) = environ s)"
proof (intro conjI impI)
  show "envstore (snd (updateNDK h version androidSdk s)) = envstore s"
    and "environ (snd (updateNDK h version androidSdk s)) = environ s"
    using assms by (simp_all add: updateNDK_alt)
next
  assume v: "NDKVersion config = version \<and> version \<noteq> []"
  obtain c s1 where ch: "os_Chmod h (GradlewPath config) gradlewPerm s = (c, s1)"
    by (cases "os_Chmod h (GradlewPath config) gradlewPerm s")
  note f = os_Chmod_frame [OF ch]
  have probe: "ndkVersion h (files s1) (currentNDKHome (environ s1)) = version"
    using assms f(1) ndkVersion_data_only [of "files s1" "files s", OF f(4)] by simp
  have ndk: "envstore (snd (main_ndk h config sdk s1)) = envstore s1
             \<and> environ (snd (main_ndk h config sdk s1)) = environ s1" for sdk
    using v probe by (simp add: main_ndk_def updateNDK_alt split: option.splits)
  have "envstore (snd (main h config s)) = envstore s1
        \<and> environ (snd (main h config s)) = environ s1"
  proof (cases c)
    case (Some err)
    with ch show ?thesis by (simp add: main_alt)
  next
    case None
    show ?thesis
    proof (cases "sdk_NewDefaultModel h (AndroidHome config) (AndroidSDKRoot config) (files s1)")
      case (Inl err)
      with ch None show ?thesis by (simp add: main_alt)
    next
      case (Inr sdk)
      obtain r2 s2 where n: "main_ndk h config sdk s1 = (r2, s2)"
        by (cases "main_ndk h config sdk s1")
      obtain r3 s3 where m: "main_components h config sdk s2 = (r3, s3)"
        by (cases "main_components h config sdk s2")
      from ch None Inr n m have "snd (main h config s) = (if r2 = None then s3 else s2)"
        by (cases r2) (simp_all add: main_alt)
      with ndk [of sdk] n main_components_frame [OF m] show ?thesis by simp
    qed
  qed
  with f(1,2) show "envstore (snd (main h config s)) = envstore s"
    and "environ (snd (main h config s)) = environ s" by simp_all
qed

theorem same_version_publishes_nothing_witness:
  "ndkVersion exampleHost (files (exampleState ''18.1.5063045''))
     (currentNDKHome (environ (exampleState ''18.1.5063045''))) = ''18.1.5063045''
   \<and> envstore (snd (updateNDK exampleHost ''18.1.5063045'' (Model ''/sdk'')
        (exampleState ''18.1.5063045''))) = []
   \<and> envstore (snd (main exampleHost (exampleConfig ''18.1.5063045'')
        (exampleState ''18.1.5063045''))) = []
   \<and> environ (snd (main exampleHost (exampleConfig ''18.1.5063045'')
        (exampleState ''18.1.5063045''))) = environ (exampleState ''18.1.5063045'')"
proof -
  have a: "ndkVersion exampleHost (files (exampleState ''18.1.5063045''))
             (currentNDKHome (environ (exampleState ''18.1.5063045''))) = ''18.1.5063045''"
    by (simp add: example_currentNDKHome example_probe_18)
  have n: "NDKVersion (exampleConfig ''18.1.5063045'') = ''18.1.5063045''"
    by (simp add: exampleConfig_def)
  have e: "envstore (exampleState ''18.1.5063045'') = []"
    by (simp add: exampleState_def)
  from same_version_publishes_nothing
         [OF a, of "Model ''/sdk''" "exampleConfig ''18.1.5063045''"] a n e
  show ?thesis
    by simp
qed

text \<open>
  Claim C4, as amended. When the requested version is not empty and does not parse, the
  step fails; it has removed nothing, has not invoked the package manager and has
  exported nothing; every file is still there with its content, and nothing but the
  permission bits of gradlew may have changed. When making gradlew executable and
  initialising the SDK succeeded, the failure is the invalid-version error and the state
  is the one that the permission change left.
\<close>

theorem main_invalid_version:
  assumes "NDKVersion config \<noteq> []"
      and "version_NewVersion h (NDKVersion config) = Some err"
      and "main h config s = (r, s')"
  shows "r \<noteq> None
       \<and> calls s' = calls s \<and> envstore s' = envstore s \<and> environ s' = environ s
       \<and> (\<forall>p. map_option data (files s' p) = map_option data (files s p))
       \<and> (\<forall>p. p \<noteq> filepath_Clean (GradlewPath config) \<longrightarrow> files s' p = files s p)
       \<and> (\<forall>s1 androidSdk.
             os_Chmod h (GradlewPath config) gradlewPerm s = (None, s1)
             \<and> sdk_NewDefaultModel h (AndroidHome config) (AndroidSDKRoot config) (files s1)
                 = Inr androidSdk
             \<longrightarrow> r = Some (InvalidNDKVersion (NDKVersion config)) \<and> s' = s1)"
proof -
  obtain c s1 where ch: "os_Chmod h (GradlewPath config) gradlewPerm s = (c, s1)"
    by (cases "os_Chmod h (GradlewPath config) gradlewPerm s")
  note f = os_Chmod_frame [OF ch]
  have ndk: "main_ndk h config sdk s1 = (Some (InvalidNDKVersion (NDKVersion config)), s1)"
    for sdk
    using assms(1,2) by (simp add: main_ndk_def)
  have "r \<noteq> None \<and> s' = s1
        \<and> (c = None \<longrightarrow> (\<forall>sdk. sdk_NewDefaultModel h (AndroidHome config)
                                   (AndroidSDKRoot config) (files s1) = Inr sdk
                             \<longrightarrow> r = Some (InvalidNDKVersion (NDKVersion config))))"
  proof (cases c)
    case (Some e)
    with ch assms(3) show ?thesis by (auto simp: main_alt)
  next
    case None
    show ?thesis
    proof (cases "sdk_NewDefaultModel h (AndroidHome config) (AndroidSDKRoot config) (files s1)")
      case (Inl e)
      with ch None assms(3) show ?thesis by (auto simp: main_alt)
    next
      case (Inr sdk)
      with ch None assms(3) ndk [of sdk] show ?thesis by (auto simp: main_alt)
    qed
  qed
  with f ch show ?thesis by auto
qed

theorem main_invalid_version_witness:
  "fst (main exampleHost (exampleConfig ''abc'') (exampleState ''17.2.4988734''))
     = Some (InvalidNDKVersion ''abc'')
   \<and> calls (snd (main exampleHost (exampleConfig ''abc'') (exampleState ''17.2.4988734''))) = []
   \<and> envstore (snd (main exampleHost (exampleConfig ''abc'') (exampleState ''17.2.4988734''))) = []
   \<and> files (snd (main exampleHost (exampleConfig ''abc'') (exampleState ''17.2.4988734'')))
        ''/sdk/ndk-bundle/source.properties''
     = files (exampleState ''17.2.4988734'') ''/sdk/ndk-bundle/source.properties''"
proof -
  have a: "NDKVersion (exampleConfig ''abc'') \<noteq> []"
    and n: "NDKVersion (exampleConfig ''abc'') = ''abc''"
    and g: "filepath_Clean (GradlewPath (exampleConfig ''abc'')) = ''gradlew''"
    by (simp_all add: exampleConfig_def filepath_Clean_def)
  have v: "version_NewVersion exampleHost (NDKVersion (exampleConfig ''abc''))
             = Some ''malformed version''"
    by (simp add: exampleHost_def exampleConfig_def)
  have c: "calls (exampleState ''17.2.4988734'') = []"
    and e: "envstore (exampleState ''17.2.4988734'') = []"
    by (simp_all add: exampleState_def)
  from main_invalid_version [OF a v surjective_pairing, of "exampleState ''17.2.4988734''"]
       example_chmod [of "''abc''" "''17.2.4988734''"] example_sdk [of "''abc''"]
  show ?thesis
    by (simp add: n g c e)
qed

text \<open>
  Claim C4 as the specification states it does not hold: with the requested version
  \<^verbatim>\<open>abc\<close> the step fails with the invalid-version error, but it has already changed the
  permission bits of gradlew from 0644 (420) to 0770 (504).
\<close>

theorem abc_version_touches_gradlew_counterexample:
  "main exampleHost (exampleConfig ''abc'') (exampleState ''17.2.4988734'') =
     (Some (InvalidNDKVersion ''abc''),
      (exampleState ''17.2.4988734'')
        \<lparr>files := (files (exampleState ''17.2.4988734''))
             (''gradlew'' \<mapsto> \<lparr>perm = 504, data = ''#!/bin/sh''\<rparr>)\<rparr>)
   \<and> files (exampleState ''17.2.4988734'') ''gradlew''
       = Some \<lparr>perm = 420, data = ''#!/bin/sh''\<rparr>
   \<and> files (snd (main exampleHost (exampleConfig ''abc'') (exampleState ''17.2.4988734'')))
       \<noteq> files (exampleState ''17.2.4988734'')"
proof -
  have v: "version_NewVersion exampleHost ''abc'' = Some ''malformed version''"
    and n: "NDKVersion (exampleConfig ''abc'') = ''abc''"
    by (simp_all add: exampleHost_def exampleConfig_def)
  have f: "files (exampleState ''17.2.4988734'') ''gradlew''
             = Some \<lparr>perm = 420, data = ''#!/bin/sh''\<rparr>"
    by (simp add: exampleState_def)
  have m: "main exampleHost (exampleConfig ''abc'') (exampleState ''17.2.4988734'') =
     (Some (InvalidNDKVersion ''abc''),
      (exampleState ''17.2.4988734'')
        \<lparr>files := (files (exampleState ''17.2.4988734''))
             (''gradlew'' \<mapsto> \<lparr>perm = 504, data = ''#!/bin/sh''\<rparr>)\<rparr>)"
    by (simp add: main_alt example_chmod example_sdk main_ndk_def v n)
  have "files (snd (main exampleHost (exampleConfig ''abc'') (exampleState ''17.2.4988734'')))
          ''gradlew'' \<noteq> files (exampleState ''17.2.4988734'') ''gradlew''"
    by (simp add: m f)
  then have "files (snd (main exampleHost (exampleConfig ''abc'') (exampleState ''17.2.4988734'')))
          \<noteq> files (exampleState ''17.2.4988734'')"
    by (rule contrapos_nn) simp
  with m f show ?thesis by simp
qed



end
